theory Spec2Isabelle
  imports Main "HOL-Library.Word"
begin

unbundle bit_operations_syntax

section \<open>Data model of certgen/tls/certificate.go\<close>

text \<open>
  The Go structs of package \<open>tls\<close> become records with the source's field names. The
  structs of the standard library that the code fills in (\<open>pkix.Name\<close>,
  \<open>x509.Certificate\<close>) are records with the fields the code reads or writes, their names
  prefixed \<open>pkix_\<close> and \<open>x509_\<close>. A Go slice is a list; a nil slice and an empty slice
  are both \<open>[]\<close> (the code only takes \<open>len\<close> of them and appends).
\<close>

type_synonym bytes = "8 word list"

text \<open>\<open>time.Time\<close>: an instant, only stored and copied.\<close>

type_synonym Time = int

record Name =
  Organization :: string
  City :: string
  Province :: string
  Country :: string
  CommonName :: string

text \<open>\<open>pkix.Name\<close> without its raw attribute lists \<open>Names\<close> and \<open>ExtraNames\<close>, which the
  code never touches.\<close>

record pkixName =
  pkix_Country :: "string list"
  pkix_Organization :: "string list"
  pkix_OrganizationalUnit :: "string list"
  pkix_Locality :: "string list"
  pkix_Province :: "string list"
  pkix_StreetAddress :: "string list"
  pkix_PostalCode :: "string list"
  pkix_SerialNumber :: string
  pkix_CommonName :: string

record DateRange =
  NotBefore :: Time
  NotAfter :: Time

record AlternateName =
  Type :: string
  Value :: string

record KeyUsage =
  DigitalSignature :: bool
  ContentCommitment :: bool
  KeyEncipherment :: bool
  DataEncipherment :: bool
  KeyAgreement :: bool
  CertSign :: bool
  CRLSign :: bool
  EncipherOnly :: bool
  DecipherOnly :: bool
  ServerAuth :: bool
  ClientAuth :: bool
  CodeSigning :: bool
  EmailProtection :: bool
  TimeStamping :: bool
  OCSPSigning :: bool

text \<open>\<open>x509.ExtKeyUsage\<close>, the enumeration of crypto/x509 in its declaration order.\<close>

datatype ExtKeyUsage =
  ExtKeyUsageAny
  | ExtKeyUsageServerAuth
  | ExtKeyUsageClientAuth
  | ExtKeyUsageCodeSigning
  | ExtKeyUsageEmailProtection
  | ExtKeyUsageIPSECEndSystem
  | ExtKeyUsageIPSECTunnel
  | ExtKeyUsageIPSECUser
  | ExtKeyUsageTimeStamping
  | ExtKeyUsageOCSPSigning
  | ExtKeyUsageMicrosoftServerGatedCrypto
  | ExtKeyUsageNetscapeServerGatedCrypto
  | ExtKeyUsageMicrosoftCommercialCodeSigning
  | ExtKeyUsageMicrosoftKernelCodeSigning

text \<open>\<open>StatusProviders\<close>: two \<open>*string\<close> fields, nil is \<open>None\<close>.\<close>

record StatusProviders =
  CRL :: "string option"
  OCSP :: "string option"

text \<open>\<open>CertificateRequest\<close>. The field \<open>StatusProviders\<close> is named \<open>Providers\<close> here, the
  record type having taken the name.\<close>

record CertificateRequest =
  Subject :: Name
  Validity :: DateRange
  AlternateNames :: "AlternateName list"
  Usage :: KeyUsage
  IsCertificateAuthority :: bool
  Providers :: StatusProviders

text \<open>\<open>Certificate\<close>, the record handed back to the caller. Its field \<open>Subject\<close> is named
  \<open>CertificateSubject\<close> here, \<open>Subject\<close> being the request's.\<close>

record Certificate =
  Serial :: string
  CertificateSubject :: Name
  CertificateAuthority :: bool
  CertificateData :: string
  KeyData :: string

text \<open>Opaque values of the standard library: keys are handles, a \<open>net.IP\<close> is its byte
  slice, a \<open>*url.URL\<close> is kept as the text it was parsed from.\<close>

datatype PrivateKey = PrivateKey nat

datatype PublicKey = PublicKey nat

type_synonym IP = bytes

datatype URL = URL string

text \<open>\<open>x509.Certificate\<close>, both the template the code assembles and what
  \<open>x509.ParseCertificate\<close> returns. \<open>x509.KeyUsage\<close> is Go's \<open>int\<close>; the bit mask never
  leaves its low nine bits, so it is an \<open>int\<close> here.\<close>

record x509Certificate =
  x509_SerialNumber :: int
  x509_Subject :: pkixName
  x509_Issuer :: pkixName
  x509_NotBefore :: Time
  x509_NotAfter :: Time
  x509_KeyUsage :: int
  x509_BasicConstraintsValid :: bool
  x509_IsCA :: bool
  x509_SubjectKeyId :: bytes
  x509_ExtKeyUsage :: "ExtKeyUsage list"
  x509_DNSNames :: "string list"
  x509_EmailAddresses :: "string list"
  x509_IPAddresses :: "IP list"
  x509_URIs :: "URL list"
  x509_CRLDistributionPoints :: "string list"
  x509_OCSPServer :: "string list"

section \<open>Name mapping (lines 28-68)\<close>

definition pkix :: "Name \<Rightarrow> pkixName" where
  "pkix n =
     \<lparr>pkix_Country = [Country n],
      pkix_Organization = [Organization n],
      pkix_OrganizationalUnit = [],
      pkix_Locality = [City n],
      pkix_Province = [Province n],
      pkix_StreetAddress = [],
      pkix_PostalCode = [],
      pkix_SerialNumber = [],
      pkix_CommonName = CommonName n\<rparr>"

text \<open>\<open>nameFromPkix\<close>: the guards \<open>len(..) > 0\<close> protect every index \<open>[0]\<close>, so no read is
  out of range.\<close>

definition nameFromPkix :: "pkixName \<Rightarrow> Name" where
  "nameFromPkix p =
     (let n = \<lparr>Organization = [], City = [], Province = [], Country = [],
                CommonName = pkix_CommonName p\<rparr>;
          n = (if length (pkix_Organization p) > 0
               then n\<lparr>Organization := pkix_Organization p ! 0\<rparr> else n);
          n = (if length (pkix_Locality p) > 0
               then n\<lparr>City := pkix_Locality p ! 0\<rparr> else n);
          n = (if length (pkix_Province p) > 0
               then n\<lparr>Province := pkix_Province p ! 0\<rparr> else n);
          n = (if length (pkix_Country p) > 0
               then n\<lparr>Country := pkix_Country p ! 0\<rparr> else n)
      in n)"

section \<open>Key usage encoding (lines 120-175)\<close>

text \<open>The constants \<open>x509.KeyUsage...\<close> of crypto/x509 are \<open>1 << iota\<close>.\<close>

definition KeyUsageDigitalSignature :: int where "KeyUsageDigitalSignature = 1"
definition KeyUsageContentCommitment :: int where "KeyUsageContentCommitment = 2"
definition KeyUsageKeyEncipherment :: int where "KeyUsageKeyEncipherment = 4"
definition KeyUsageDataEncipherment :: int where "KeyUsageDataEncipherment = 8"
definition KeyUsageKeyAgreement :: int where "KeyUsageKeyAgreement = 16"
definition KeyUsageCertSign :: int where "KeyUsageCertSign = 32"
definition KeyUsageCRLSign :: int where "KeyUsageCRLSign = 64"
definition KeyUsageEncipherOnly :: int where "KeyUsageEncipherOnly = 128"
definition KeyUsageDecipherOnly :: int where "KeyUsageDecipherOnly = 256"

definition usage :: "KeyUsage \<Rightarrow> int" where
  "usage u =
     (let usage = 0;
          usage = (if DigitalSignature u then usage OR KeyUsageDigitalSignature else usage);
          usage = (if ContentCommitment u then usage OR KeyUsageContentCommitment else usage);
          usage = (if KeyEncipherment u then usage OR KeyUsageKeyEncipherment else usage);
          usage = (if DataEncipherment u then usage OR KeyUsageDataEncipherment else usage);
          usage = (if KeyAgreement u then usage OR KeyUsageKeyAgreement else usage);
          usage = (if CertSign u then usage OR KeyUsageCertSign else usage);
          usage = (if CRLSign u then usage OR KeyUsageCRLSign else usage);
          usage = (if EncipherOnly u then usage OR KeyUsageEncipherOnly else usage);
          usage = (if DecipherOnly u then usage OR KeyUsageDecipherOnly else usage)
      in usage)"

definition extendedUsage :: "KeyUsage \<Rightarrow> ExtKeyUsage list" where
  "extendedUsage u =
     (let usage = [];
          usage = (if ServerAuth u then usage @ [ExtKeyUsageServerAuth] else usage);
          usage = (if ClientAuth u then usage @ [ExtKeyUsageClientAuth] else usage);
          usage = (if CodeSigning u then usage @ [ExtKeyUsageCodeSigning] else usage);
          usage = (if EmailProtection u then usage @ [ExtKeyUsageEmailProtection] else usage);
          usage = (if TimeStamping u then usage @ [ExtKeyUsageTimeStamping] else usage);
          usage = (if OCSPSigning u then usage @ [ExtKeyUsageOCSPSigning] else usage)
      in usage)"

text \<open>
  The specification's reading of the extended flags, to compare \<open>extendedUsage\<close> with:
  the six identifiers in the fixed declaration order, and the flag each one stands for.
\<close>

definition declarationOrder :: "ExtKeyUsage list" where
  "declarationOrder =
     [ExtKeyUsageServerAuth, ExtKeyUsageClientAuth, ExtKeyUsageCodeSigning,
      ExtKeyUsageEmailProtection, ExtKeyUsageTimeStamping, ExtKeyUsageOCSPSigning]"

fun extendedFlag :: "KeyUsage \<Rightarrow> ExtKeyUsage \<Rightarrow> bool" where
  "extendedFlag u ExtKeyUsageServerAuth = ServerAuth u"
| "extendedFlag u ExtKeyUsageClientAuth = ClientAuth u"
| "extendedFlag u ExtKeyUsageCodeSigning = CodeSigning u"
| "extendedFlag u ExtKeyUsageEmailProtection = EmailProtection u"
| "extendedFlag u ExtKeyUsageTimeStamping = TimeStamping u"
| "extendedFlag u ExtKeyUsageOCSPSigning = OCSPSigning u"
| "extendedFlag u _ = False"

section \<open>Library behaviour the code relies on\<close>

subsection \<open>encoding/hex\<close>

text \<open>
  \<open>hex.EncodeToString\<close> writes two lower-case digits per byte. \<open>hex.DecodeString\<close> accepts
  digits of either case, reports an invalid byte where it meets one (the odd last
  character included) and \<open>ErrLength\<close> for an odd number of valid digits.
\<close>

definition hextable :: string where
  "hextable = ''0123456789abcdef''"

definition EncodeToString :: "bytes \<Rightarrow> string" where
  "EncodeToString src =
     concat (map (\<lambda>v. [hextable ! unat (drop_bit 4 v), hextable ! unat (v AND 0x0f)]) src)"

definition fromHexChar :: "char \<Rightarrow> nat option" where
  "fromHexChar c =
     (let n = (of_char c :: nat) in
      if 48 \<le> n \<and> n \<le> 57 then Some (n - 48)
      else if 97 \<le> n \<and> n \<le> 102 then Some (n - 97 + 10)
      else if 65 \<le> n \<and> n \<le> 70 then Some (n - 65 + 10)
      else None)"

datatype hexError = ErrLength | InvalidByteError char

fun DecodeString :: "string \<Rightarrow> hexError + bytes" where
  "DecodeString [] = Inr []"
| "DecodeString [p] =
     (case fromHexChar p of None \<Rightarrow> Inl (InvalidByteError p) | Some a \<Rightarrow> Inl ErrLength)"
| "DecodeString (p # q # src) =
     (case fromHexChar p of
        None \<Rightarrow> Inl (InvalidByteError p)
      | Some a \<Rightarrow>
          (case fromHexChar q of
             None \<Rightarrow> Inl (InvalidByteError q)
           | Some b \<Rightarrow>
               (case DecodeString src of
                  Inl e \<Rightarrow> Inl e
                | Inr dst \<Rightarrow> Inr (word_of_nat (a * 16 + b) # dst))))"

subsection \<open>math/big\<close>

text \<open>\<open>(*big.Int).String\<close>: the decimal digits, with a minus sign for a negative value.\<close>

definition decimalDigits :: string where
  "decimalDigits = ''0123456789''"

fun digits :: "nat \<Rightarrow> string" where
  "digits n =
     (if n < 10 then [decimalDigits ! n]
      else digits (n div 10) @ [decimalDigits ! (n mod 10)])"

definition bigString :: "int \<Rightarrow> string" where
  "bigString x = (if x < 0 then CHR ''-'' # digits (nat (- x)) else digits (nat x))"

text \<open>Reading a string of decimal digits back, to say which number a stored serial is.\<close>

definition decimalValue :: "string \<Rightarrow> nat" where
  "decimalValue s = foldl (\<lambda>acc c. 10 * acc + (of_char c - 48)) 0 s"

subsection \<open>Errors, panics and the calls into crypto, net and net/url\<close>

text \<open>
  An \<open>error\<close> value is either built by the code itself (\<open>fmt.Errorf\<close>, kept with its
  text) or handed back by a library call and passed on unchanged; such an error is
  tagged with the call it came from and carries the library's message.
\<close>

datatype error =
  Errorf string
  | GenerateKeyError string
  | RandIntError string
  | MarshalPKCS8PrivateKeyError string
  | MarshalPKIXPublicKeyError string
  | URLParseError string
  | CreateCertificateError string
  | HexDecodeError hexError
  | ParseCertificateError string
  | ParsePKCS8PrivateKeyError string

text \<open>
  What a call does: it returns a value (\<open>Ok\<close>), returns a non-nil \<open>error\<close> to its caller
  (\<open>Err\<close>), or panics with the error (\<open>Panic\<close>), which unwinds through every caller in
  this file since none recovers.
\<close>

datatype 'a result = Ok 'a | Err error | Panic error

text \<open>
  The library calls of \<open>GenerateCertificate\<close> and of the record accessors are parameters.
  One \<open>env\<close> is one run: what the random source gave to key generation, to \<open>rand.Int\<close>
  and to the signature is fixed in it. \<open>parseIP\<close> is \<open>net.ParseIP\<close>, with \<open>None\<close> for its
  nil result.
\<close>

record env =
  generateKey :: "string + PrivateKey"
  public :: "PrivateKey \<Rightarrow> PublicKey"
  randInt :: "int \<Rightarrow> string + int"
  marshalPKCS8PrivateKey :: "PrivateKey \<Rightarrow> string + bytes"
  marshalPKIXPublicKey :: "PublicKey \<Rightarrow> string + bytes"
  sha1Sum :: "bytes \<Rightarrow> bytes"
  parseIP :: "string \<Rightarrow> IP option"
  urlParse :: "string \<Rightarrow> string + URL"
  createCertificate ::
    "x509Certificate \<Rightarrow> x509Certificate \<Rightarrow> PublicKey \<Rightarrow> PrivateKey \<Rightarrow> string + bytes"
  parseCertificate :: "bytes \<Rightarrow> string + x509Certificate"
  parsePKCS8PrivateKey :: "bytes \<Rightarrow> string + PrivateKey"

section \<open>Record accessors (lines 202-242)\<close>

text \<open>Each accessor panics on a failed decoding; none returns an \<open>error\<close>.\<close>

definition certificateDataBytes :: "Certificate \<Rightarrow> bytes result" where
  "certificateDataBytes c =
     (case DecodeString (CertificateData c) of
        Inl err \<Rightarrow> Panic (HexDecodeError err)
      | Inr data \<Rightarrow> Ok data)"

definition keyDataBytes :: "Certificate \<Rightarrow> bytes result" where
  "keyDataBytes c =
     (case DecodeString (KeyData c) of
        Inl err \<Rightarrow> Panic (HexDecodeError err)
      | Inr data \<Rightarrow> Ok data)"

definition x509 :: "env \<Rightarrow> Certificate \<Rightarrow> x509Certificate result" where
  "x509 env c =
     (case certificateDataBytes c of
        Panic e \<Rightarrow> Panic e
      | Err e \<Rightarrow> Err e
      | Ok data \<Rightarrow>
          (case parseCertificate env data of
             Inl err \<Rightarrow> Panic (ParseCertificateError err)
           | Inr x \<Rightarrow> Ok x))"

definition pKey :: "env \<Rightarrow> Certificate \<Rightarrow> PrivateKey result" where
  "pKey env c =
     (case keyDataBytes c of
        Panic e \<Rightarrow> Panic e
      | Err e \<Rightarrow> Err e
      | Ok data \<Rightarrow>
          (case parsePKCS8PrivateKey env data of
             Inl err \<Rightarrow> Panic (ParsePKCS8PrivateKeyError err)
           | Inr k \<Rightarrow> Ok k))"

section \<open>Issuance: GenerateCertificate (lines 245-345)\<close>

definition randomSerialNumber :: "env \<Rightarrow> string + int" where
  "randomSerialNumber env = (let serialNumberLimit = push_bit 128 1 in randInt env serialNumberLimit)"

text \<open>The zero value of \<open>pkix.Name\<close>, which a template's \<open>Issuer\<close> holds until it is set.\<close>

definition zeroName :: pkixName where
  "zeroName =
     \<lparr>pkix_Country = [], pkix_Organization = [], pkix_OrganizationalUnit = [],
      pkix_Locality = [], pkix_Province = [], pkix_StreetAddress = [], pkix_PostalCode = [],
      pkix_SerialNumber = [], pkix_CommonName = []\<rparr>"

text \<open>The composite literal of lines 274-283; a field it does not name has its zero
  value.\<close>

definition template :: "CertificateRequest \<Rightarrow> int \<Rightarrow> bytes \<Rightarrow> x509Certificate" where
  "template request serial h =
     \<lparr>x509_SerialNumber = serial,
      x509_Subject = pkix (Subject request),
      x509_Issuer = zeroName,
      x509_NotBefore = NotBefore (Validity request),
      x509_NotAfter = NotAfter (Validity request),
      x509_KeyUsage = usage (Usage request),
      x509_BasicConstraintsValid = True,
      x509_IsCA = False,
      x509_SubjectKeyId = h,
      x509_ExtKeyUsage = [],
      x509_DNSNames = [],
      x509_EmailAddresses = [],
      x509_IPAddresses = [],
      x509_URIs = [],
      x509_CRLDistributionPoints = [],
      x509_OCSPServer = []\<rparr>"

definition AlternateNameTypeDNS :: string where "AlternateNameTypeDNS = ''dns''"
definition AlternateNameTypeEmail :: string where "AlternateNameTypeEmail = ''email''"
definition AlternateNameTypeIP :: string where "AlternateNameTypeIP = ''ip''"
definition AlternateNameTypeURI :: string where "AlternateNameTypeURI = ''uri''"

text \<open>Lines 285-287.\<close>

definition setIssuer :: "env \<Rightarrow> Certificate option \<Rightarrow> x509Certificate \<Rightarrow> x509Certificate result" where
  "setIssuer env issuer tpl =
     (case issuer of
        None \<Rightarrow> Ok tpl
      | Some i \<Rightarrow>
          (case x509 env i of
             Panic e \<Rightarrow> Panic e
           | Err e \<Rightarrow> Err e
           | Ok x \<Rightarrow> Ok (tpl\<lparr>x509_Issuer := x509_Subject x\<rparr>)))"

text \<open>The loop of lines 289-314 over \<open>request.AlternateNames\<close>; the \<open>switch\<close> tries its
  cases in order and an error return leaves the loop and the function.\<close>

fun alternateNames :: "env \<Rightarrow> AlternateName list \<Rightarrow> x509Certificate \<Rightarrow> error + x509Certificate" where
  "alternateNames env [] tpl = Inr tpl"
| "alternateNames env (name # names) tpl =
     (if Type name = AlternateNameTypeDNS then
        alternateNames env names (tpl\<lparr>x509_DNSNames := x509_DNSNames tpl @ [Value name]\<rparr>)
      else if Type name = AlternateNameTypeEmail then
        alternateNames env names
          (tpl\<lparr>x509_EmailAddresses := x509_EmailAddresses tpl @ [Value name]\<rparr>)
      else if Type name = AlternateNameTypeIP then
        (case parseIP env (Value name) of
           None \<Rightarrow> Inl (Errorf (''invalid ip address '' @ Value name))
         | Some ip \<Rightarrow>
             alternateNames env names (tpl\<lparr>x509_IPAddresses := x509_IPAddresses tpl @ [ip]\<rparr>))
      else if Type name = AlternateNameTypeURI then
        (case urlParse env (Value name) of
           Inl err \<Rightarrow> Inl (URLParseError err)
         | Inr u \<Rightarrow> alternateNames env names (tpl\<lparr>x509_URIs := x509_URIs tpl @ [u]\<rparr>))
      else alternateNames env names tpl)"

text \<open>Lines 316-322.\<close>

definition statusProviders :: "StatusProviders \<Rightarrow> x509Certificate \<Rightarrow> x509Certificate" where
  "statusProviders sp tpl =
     (let tpl = (case CRL sp of None \<Rightarrow> tpl
                 | Some crl \<Rightarrow> tpl\<lparr>x509_CRLDistributionPoints := [crl]\<rparr>);
          tpl = (case OCSP sp of None \<Rightarrow> tpl
                 | Some ocsp \<Rightarrow> tpl\<lparr>x509_OCSPServer := [ocsp]\<rparr>)
      in tpl)"

text \<open>Lines 274-322 together: the template as it stands when the code turns to signing.\<close>

definition buildTemplate ::
    "env \<Rightarrow> CertificateRequest \<Rightarrow> Certificate option \<Rightarrow> int \<Rightarrow> bytes \<Rightarrow> x509Certificate result" where
  "buildTemplate env request issuer serial h =
     (case setIssuer env issuer (template request serial h) of
        Panic e \<Rightarrow> Panic e
      | Err e \<Rightarrow> Err e
      | Ok tpl \<Rightarrow>
          (case alternateNames env (AlternateNames request) tpl of
             Inl err \<Rightarrow> Err err
           | Inr tpl \<Rightarrow> Ok (statusProviders (Providers request) tpl)))"

text \<open>Lines 324-336: self-signed with the template as its own parent, or signed by the
  issuer's decoded certificate and key (decoded in argument order, certificate first).\<close>

definition signCertificate ::
    "env \<Rightarrow> Certificate option \<Rightarrow> x509Certificate \<Rightarrow> PublicKey \<Rightarrow> PrivateKey \<Rightarrow> bytes result" where
  "signCertificate env issuer tpl pub priv =
     (case issuer of
        None \<Rightarrow>
          (case createCertificate env tpl tpl pub priv of
             Inl err \<Rightarrow> Err (CreateCertificateError err)
           | Inr certBytes \<Rightarrow> Ok certBytes)
      | Some i \<Rightarrow>
          (case x509 env i of
             Panic e \<Rightarrow> Panic e
           | Err e \<Rightarrow> Err e
           | Ok parent \<Rightarrow>
               (case pKey env i of
                  Panic e \<Rightarrow> Panic e
                | Err e \<Rightarrow> Err e
                | Ok signer \<Rightarrow>
                    (case createCertificate env tpl parent pub signer of
                       Inl err \<Rightarrow> Err (CreateCertificateError err)
                     | Inr certBytes \<Rightarrow> Ok certBytes))))"

definition GenerateCertificate :: "env \<Rightarrow> CertificateRequest \<Rightarrow> Certificate option \<Rightarrow> Certificate result" where
  "GenerateCertificate env request issuer =
     (case generateKey env of
        Inl err \<Rightarrow> Err (GenerateKeyError err)
      | Inr priv \<Rightarrow>
     let pub = public env priv in
     (case randomSerialNumber env of
        Inl err \<Rightarrow> Err (RandIntError err)
      | Inr serial \<Rightarrow>
     (case marshalPKCS8PrivateKey env priv of
        Inl err \<Rightarrow> Err (MarshalPKCS8PrivateKeyError err)
      | Inr pKeyBytes \<Rightarrow>
     (case marshalPKIXPublicKey env pub of
        Inl err \<Rightarrow> Err (MarshalPKIXPublicKeyError err)
      | Inr publicKeyBytes \<Rightarrow>
     let h = sha1Sum env publicKeyBytes;
         certificate =
           \<lparr>Serial = bigString serial,
            CertificateSubject = Subject request,
            CertificateAuthority = (issuer = None),
            CertificateData = [],
            KeyData = EncodeToString pKeyBytes\<rparr>
     in
     (case buildTemplate env request issuer serial h of
        Panic e \<Rightarrow> Panic e
      | Err e \<Rightarrow> Err e
      | Ok tpl \<Rightarrow>
     (case signCertificate env issuer tpl pub priv of
        Panic e \<Rightarrow> Panic e
      | Err e \<Rightarrow> Err e
      | Ok certBytes \<Rightarrow>
          Ok (certificate\<lparr>CertificateData := EncodeToString certBytes\<rparr>)))))))"

section \<open>A concrete run, for the examples\<close>

text \<open>
  One fixed behaviour of the library calls, on which the theorems below are exercised:
  key generation yields the key with handle 7, \<open>rand.Int\<close> draws 42 (reduced below its
  limit), a key marshals to two bytes, \<open>net.ParseIP\<close> knows the loopback address and
  rejects everything else, \<open>url.Parse\<close> rejects the broken escape \<open>%zz\<close>, signing yields
  the bytes \<open>exampleDER\<close>, and those bytes alone parse back, to \<open>exampleParsed\<close>.
\<close>

definition exampleName :: Name where
  "exampleName =
     \<lparr>Organization = ''Example'', City = ''Vancouver'', Province = ''BC'', Country = ''CA'',
      CommonName = ''Example Root''\<rparr>"

definition noUsage :: KeyUsage where
  "noUsage =
     \<lparr>DigitalSignature = False, ContentCommitment = False, KeyEncipherment = False,
      DataEncipherment = False, KeyAgreement = False, CertSign = False, CRLSign = False,
      EncipherOnly = False, DecipherOnly = False, ServerAuth = False, ClientAuth = False,
      CodeSigning = False, EmailProtection = False, TimeStamping = False,
      OCSPSigning = False\<rparr>"

definition exampleRequest :: CertificateRequest where
  "exampleRequest =
     \<lparr>Subject = exampleName,
      Validity = \<lparr>NotBefore = 0, NotAfter = 1000\<rparr>,
      AlternateNames = [],
      Usage = noUsage\<lparr>ServerAuth := True, ClientAuth := True\<rparr>,
      IsCertificateAuthority = True,
      Providers = \<lparr>CRL = None, OCSP = None\<rparr>\<rparr>"

definition exampleDER :: bytes where
  "exampleDER = [0x30, 0x03, 0x02, 0x01, 0x2a]"

definition exampleParsed :: x509Certificate where
  "exampleParsed = (template exampleRequest 42 (replicate 20 0))\<lparr>x509_Issuer := pkix exampleName\<rparr>"

definition exampleEnv :: env where
  "exampleEnv =
     \<lparr>generateKey = Inr (PrivateKey 7),
      public = (\<lambda>k. case k of PrivateKey n \<Rightarrow> PublicKey n),
      randInt = (\<lambda>limit. Inr (42 mod limit)),
      marshalPKCS8PrivateKey = (\<lambda>k. case k of PrivateKey n \<Rightarrow> Inr [0x30, word_of_nat n]),
      marshalPKIXPublicKey = (\<lambda>k. case k of PublicKey n \<Rightarrow> Inr [0x30, word_of_nat n]),
      sha1Sum = (\<lambda>data. replicate 20 0),
      parseIP = (\<lambda>s. if s = ''127.0.0.1''
                      then Some [0, 0, 0, 0, 0, 0, 0, 0, 0, 0, 0xff, 0xff, 127, 0, 0, 1]
                      else None),
      urlParse = (\<lambda>s. if s = ''%zz'' then Inl ''invalid URL escape'' else Inr (URL s)),
      createCertificate = (\<lambda>tpl parent pub priv. Inr exampleDER),
      parseCertificate = (\<lambda>der. if der = exampleDER then Inr exampleParsed
                                 else Inl ''x509: malformed certificate''),
      parsePKCS8PrivateKey = (\<lambda>der. if der = [0x30, 7] then Inr (PrivateKey 7)
                                     else Inl ''asn1: syntax error'')\<rparr>"



definition issuerDecodes :: "env \<Rightarrow> Certificate option \<Rightarrow> bool" where
  "issuerDecodes env issuer =
     (case issuer of
        None \<Rightarrow> True
      | Some i \<Rightarrow> (case x509 env i of Ok x \<Rightarrow> True | _ \<Rightarrow> False))"

text \<open>The values of the request's alternate names of one type, in the request's order.\<close>

definition ofType :: "string \<Rightarrow> AlternateName list \<Rightarrow> string list" where
  "ofType t names = map Value (filter (\<lambda>name. Type name = t) names)"

text \<open>
  The specification's grouping of the alternate names, as a predicate on a template and
  the request's list: the \<open>dns\<close> and \<open>email\<close> values as given, the \<open>ip\<close> and \<open>uri\<close> values
  as \<open>net.ParseIP\<close> and \<open>url.Parse\<close> return them, each list in the request's order.
\<close>

definition namesGrouped :: "env \<Rightarrow> AlternateName list \<Rightarrow> x509Certificate \<Rightarrow> bool" where
  "namesGrouped env names tpl =
     (x509_DNSNames tpl = ofType AlternateNameTypeDNS names
      \<and> x509_EmailAddresses tpl = ofType AlternateNameTypeEmail names
      \<and> map Some (x509_IPAddresses tpl) = map (parseIP env) (ofType AlternateNameTypeIP names)
      \<and> map Inr (x509_URIs tpl) = map (urlParse env) (ofType AlternateNameTypeURI names))"

text \<open>The record the run above returns for \<open>exampleRequest\<close> without an issuer; it serves as
  the issuer of later examples.\<close>

definition exampleIssuer :: Certificate where
  "exampleIssuer =
     \<lparr>Serial = ''42'', CertificateSubject = exampleName, CertificateAuthority = True,
      CertificateData = ''300302012a'', KeyData = ''3007''\<rparr>"

text \<open>Alternate names of every type, interleaved, with one of an unknown type.\<close>

definition exampleNames :: "AlternateName list" where
  "exampleNames =
     [\<lparr>Type = ''dns'', Value = ''a.example''\<rparr>,
      \<lparr>Type = ''uri'', Value = ''https://a.example/x''\<rparr>,
      \<lparr>Type = ''ip'', Value = ''127.0.0.1''\<rparr>,
      \<lparr>Type = ''carrier-pigeon'', Value = ''x''\<rparr>,
      \<lparr>Type = ''email'', Value = ''ca@a.example''\<rparr>,
      \<lparr>Type = ''dns'', Value = ''b.example''\<rparr>,
      \<lparr>Type = ''uri'', Value = ''https://b.example/y''\<rparr>]"

section \<open>Lemmas about the library models\<close>

lemma decimalDigits_nth: "n < 10 \<Longrightarrow> of_char (decimalDigits ! n) = 48 + n"
proof -
  assume "n < 10"
  then have "n = 0 \<or> n = 1 \<or> n = 2 \<or> n = 3 \<or> n = 4 \<or> n = 5 \<or> n = 6 \<or> n = 7 \<or> n = 8 \<or> n = 9"
    by arith
  then show ?thesis
    by (elim disjE) (simp_all add: decimalDigits_def)
qed

declare digits.simps [simp del]

lemma decimalValue_append:
  "decimalValue (s @ [c]) = 10 * decimalValue s + (of_char c - 48)"
  by (simp add: decimalValue_def)

lemma decimalValue_digits: "decimalValue (digits n) = n"
proof (induction n rule: digits.induct)
  case (1 n)
  show ?case
  proof (cases "n < 10")
    case True
    then show ?thesis
      by (subst digits.simps) (simp add: decimalValue_def decimalDigits_nth)
  next
    case False
    with 1 have "decimalValue (digits (n div 10)) = n div 10" by simp
    with False show ?thesis
      by (subst digits.simps) (simp add: decimalValue_append decimalDigits_nth)
  qed
qed

lemma decimalValue_bigString: "0 \<le> x \<Longrightarrow> int (decimalValue (bigString x)) = x"
  by (simp add: bigString_def decimalValue_digits)


lemma serialNumberLimit: "push_bit 128 (1::int) = 2 ^ 128"
  by simp

section \<open>Lemmas about the alternate-name loop\<close>

lemmas typeNames = AlternateNameTypeDNS_def AlternateNameTypeEmail_def AlternateNameTypeIP_def
  AlternateNameTypeURI_def

lemma alternateNames_skip:
  assumes "Type name \<noteq> AlternateNameTypeDNS" "Type name \<noteq> AlternateNameTypeEmail"
    "Type name \<noteq> AlternateNameTypeIP" "Type name \<noteq> AlternateNameTypeURI"
  shows "alternateNames env (xs @ name # ys) tpl = alternateNames env (xs @ ys) tpl"
  using assms
proof (induction xs arbitrary: tpl)
  case Nil
  then show ?case by simp
next
  case (Cons x xs)
  then show ?case by (simp split: option.split sum.split)
qed


lemma alternateNames_succeeds:
  assumes "\<forall>n\<in>set names. Type n = AlternateNameTypeIP \<longrightarrow> parseIP env (Value n) \<noteq> None"
    and "\<forall>n\<in>set names. Type n = AlternateNameTypeURI \<longrightarrow> (\<exists>u. urlParse env (Value n) = Inr u)"
  shows "\<exists>tpl'. alternateNames env names tpl = Inr tpl'"
  using assms
proof (induction names arbitrary: tpl)
  case Nil
  then show ?case by simp
next
  case (Cons x xs)
  then show ?case by (auto split: option.split sum.split)
qed


lemma alternateNames_DNSNames:
  "alternateNames env names tpl = Inr tpl' \<Longrightarrow>
   x509_DNSNames tpl' = x509_DNSNames tpl @ ofType AlternateNameTypeDNS names"
proof (induction names arbitrary: tpl)
  case Nil
  then show ?case by (simp add: ofType_def)
next
  case (Cons x xs)
  from Cons.prems show ?case
    by (auto simp: ofType_def typeNames dest!: Cons.IH split: if_splits option.splits sum.splits)
qed

lemma alternateNames_EmailAddresses:
  "alternateNames env names tpl = Inr tpl' \<Longrightarrow>
   x509_EmailAddresses tpl' = x509_EmailAddresses tpl @ ofType AlternateNameTypeEmail names"
proof (induction names arbitrary: tpl)
  case Nil
  then show ?case by (simp add: ofType_def)
next
  case (Cons x xs)
  from Cons.prems show ?case
    by (auto simp: ofType_def typeNames dest!: Cons.IH split: if_splits option.splits sum.splits)
qed

lemma alternateNames_IPAddresses:
  "alternateNames env names tpl = Inr tpl' \<Longrightarrow>
   map Some (x509_IPAddresses tpl') =
     map Some (x509_IPAddresses tpl) @ map (parseIP env) (ofType AlternateNameTypeIP names)"
proof (induction names arbitrary: tpl)
  case Nil
  then show ?case by (simp add: ofType_def)
next
  case (Cons x xs)
  from Cons.prems show ?case
    by (auto simp: ofType_def typeNames dest!: Cons.IH split: if_splits option.splits sum.splits)
qed

lemma alternateNames_URIs:
  "alternateNames env names tpl = Inr tpl' \<Longrightarrow>
   map Inr (x509_URIs tpl') =
     map Inr (x509_URIs tpl) @ map (urlParse env) (ofType AlternateNameTypeURI names)"
proof (induction names arbitrary: tpl)
  case Nil
  then show ?case by (simp add: ofType_def)
next
  case (Cons x xs)
  from Cons.prems show ?case
    by (auto simp: ofType_def typeNames dest!: Cons.IH split: if_splits option.splits sum.splits)
qed

lemma alternateNames_frame:
  "alternateNames env names tpl = Inr tpl' \<Longrightarrow>
   tpl' = tpl\<lparr>x509_DNSNames := x509_DNSNames tpl',
         x509_EmailAddresses := x509_EmailAddresses tpl',
         x509_IPAddresses := x509_IPAddresses tpl', x509_URIs := x509_URIs tpl'\<rparr>"
proof (induction names arbitrary: tpl)
  case Nil
  then show ?case by simp
next
  case (Cons x xs)
  from Cons.prems show ?case
    by (auto dest!: Cons.IH split: if_splits option.splits sum.splits)
qed


section \<open>Lemmas about issuance\<close>

lemma GenerateCertificate_Ok:
  assumes "GenerateCertificate env request issuer = Ok c"
  obtains priv serial pKeyBytes publicKeyBytes tpl certBytes where
    "generateKey env = Inr priv"
    "randomSerialNumber env = Inr serial"
    "marshalPKCS8PrivateKey env priv = Inr pKeyBytes"
    "marshalPKIXPublicKey env (public env priv) = Inr publicKeyBytes"
    "buildTemplate env request issuer serial (sha1Sum env publicKeyBytes) = Ok tpl"
    "signCertificate env issuer tpl (public env priv) priv = Ok certBytes"
    "c = \<lparr>Serial = bigString serial, CertificateSubject = Subject request,
          CertificateAuthority = (issuer = None),
          CertificateData = EncodeToString certBytes,
          KeyData = EncodeToString pKeyBytes\<rparr>"
  using assms
  by (auto simp: GenerateCertificate_def Let_def split: sum.splits result.splits)

lemma setIssuer_flags:
  "setIssuer env issuer tpl = Ok tpl' \<Longrightarrow>
   x509_BasicConstraintsValid tpl' = x509_BasicConstraintsValid tpl
   \<and> x509_IsCA tpl' = x509_IsCA tpl \<and> x509_ExtKeyUsage tpl' = x509_ExtKeyUsage tpl
   \<and> x509_DNSNames tpl' = x509_DNSNames tpl
   \<and> x509_EmailAddresses tpl' = x509_EmailAddresses tpl
   \<and> x509_IPAddresses tpl' = x509_IPAddresses tpl \<and> x509_URIs tpl' = x509_URIs tpl"
  by (auto simp: setIssuer_def split: option.splits result.splits)

lemma alternateNames_flags:
  assumes "alternateNames env names tpl = Inr tpl'"
  shows "x509_BasicConstraintsValid tpl' = x509_BasicConstraintsValid tpl
    \<and> x509_IsCA tpl' = x509_IsCA tpl \<and> x509_ExtKeyUsage tpl' = x509_ExtKeyUsage tpl"
proof -
  from alternateNames_frame [OF assms] obtain d e i u where
    "tpl' = tpl\<lparr>x509_DNSNames := d, x509_EmailAddresses := e, x509_IPAddresses := i,
       x509_URIs := u\<rparr>"
    by blast
  then show ?thesis by simp
qed

lemma statusProviders_flags:
  "x509_BasicConstraintsValid (statusProviders sp tpl) = x509_BasicConstraintsValid tpl
   \<and> x509_IsCA (statusProviders sp tpl) = x509_IsCA tpl
   \<and> x509_ExtKeyUsage (statusProviders sp tpl) = x509_ExtKeyUsage tpl
   \<and> x509_DNSNames (statusProviders sp tpl) = x509_DNSNames tpl
   \<and> x509_EmailAddresses (statusProviders sp tpl) = x509_EmailAddresses tpl
   \<and> x509_IPAddresses (statusProviders sp tpl) = x509_IPAddresses tpl
   \<and> x509_URIs (statusProviders sp tpl) = x509_URIs tpl"
  by (simp add: statusProviders_def Let_def split: option.splits)

lemma buildTemplate_Ok:
  assumes "buildTemplate env request issuer serial h = Ok tpl"
  obtains tpl0 tpl1 where
    "setIssuer env issuer (template request serial h) = Ok tpl0"
    "alternateNames env (AlternateNames request) tpl0 = Inr tpl1"
    "tpl = statusProviders (Providers request) tpl1"
  using assms
  by (auto simp: buildTemplate_def split: sum.splits result.splits)

lemma buildTemplate_flags:
  assumes "buildTemplate env request issuer serial h = Ok tpl"
  shows "x509_BasicConstraintsValid tpl \<and> \<not> x509_IsCA tpl \<and> x509_ExtKeyUsage tpl = []"
proof -
  from assms obtain tpl0 tpl1 where
    a: "setIssuer env issuer (template request serial h) = Ok tpl0" and
    b: "alternateNames env (AlternateNames request) tpl0 = Inr tpl1" and
    c: "tpl = statusProviders (Providers request) tpl1"
    by (rule buildTemplate_Ok)
  have "x509_BasicConstraintsValid (template request serial h)
      \<and> \<not> x509_IsCA (template request serial h)
      \<and> x509_ExtKeyUsage (template request serial h) = []"
    by (simp add: template_def)
  with setIssuer_flags [OF a] alternateNames_flags [OF b] statusProviders_flags c
  show ?thesis by simp
qed

lemma setIssuer_decodes:
  "issuerDecodes env issuer \<Longrightarrow> \<exists>tpl'. setIssuer env issuer tpl = Ok tpl'"
  by (auto simp: issuerDecodes_def setIssuer_def split: option.splits result.splits)

lemma x509_never_Err: "x509 env c \<noteq> Err e"
  by (simp add: x509_def certificateDataBytes_def split: sum.splits result.splits)

lemma pKey_never_Err: "pKey env c \<noteq> Err e"
  by (simp add: pKey_def keyDataBytes_def split: sum.splits result.splits)

lemma buildTemplate_names:
  assumes "buildTemplate env request issuer serial h = Ok tpl"
  shows "x509_DNSNames tpl = ofType AlternateNameTypeDNS (AlternateNames request)"
    and "x509_EmailAddresses tpl = ofType AlternateNameTypeEmail (AlternateNames request)"
    and "map Some (x509_IPAddresses tpl) =
      map (parseIP env) (ofType AlternateNameTypeIP (AlternateNames request))"
    and "map Inr (x509_URIs tpl) =
      map (urlParse env) (ofType AlternateNameTypeURI (AlternateNames request))"
proof -
  from assms obtain tpl0 tpl1 where
    a: "setIssuer env issuer (template request serial h) = Ok tpl0" and
    b: "alternateNames env (AlternateNames request) tpl0 = Inr tpl1" and
    c: "tpl = statusProviders (Providers request) tpl1"
    by (rule buildTemplate_Ok)
  from setIssuer_flags [OF a] have z: "x509_DNSNames tpl0 = []" "x509_EmailAddresses tpl0 = []"
    "x509_IPAddresses tpl0 = []" "x509_URIs tpl0 = []"
    by (simp_all add: template_def)
  from alternateNames_DNSNames [OF b] z c
  show "x509_DNSNames tpl = ofType AlternateNameTypeDNS (AlternateNames request)"
    by (simp add: statusProviders_flags)
  from alternateNames_EmailAddresses [OF b] z c
  show "x509_EmailAddresses tpl = ofType AlternateNameTypeEmail (AlternateNames request)"
    by (simp add: statusProviders_flags)
  from alternateNames_IPAddresses [OF b] z c
  show "map Some (x509_IPAddresses tpl) =
      map (parseIP env) (ofType AlternateNameTypeIP (AlternateNames request))"
    by (simp add: statusProviders_flags)
  from alternateNames_URIs [OF b] z c
  show "map Inr (x509_URIs tpl) =
      map (urlParse env) (ofType AlternateNameTypeURI (AlternateNames request))"
    by (simp add: statusProviders_flags)
qed

lemma buildTemplate_grouped:
  "buildTemplate env request issuer serial h = Ok tpl \<Longrightarrow>
   namesGrouped env (AlternateNames request) tpl"
  by (simp add: namesGrouped_def buildTemplate_names)

lemma buildTemplate_succeeds:
  assumes "\<forall>n\<in>set (AlternateNames request).
      Type n = AlternateNameTypeIP \<longrightarrow> parseIP env (Value n) \<noteq> None"
    and "\<forall>n\<in>set (AlternateNames request).
      Type n = AlternateNameTypeURI \<longrightarrow> (\<exists>u. urlParse env (Value n) = Inr u)"
    and "issuerDecodes env issuer"
  shows "\<exists>tpl. buildTemplate env request issuer serial h = Ok tpl
    \<and> namesGrouped env (AlternateNames request) tpl"
proof -
  from assms(3) setIssuer_decodes obtain tpl0 where
    a: "setIssuer env issuer (template request serial h) = Ok tpl0"
    by blast
  from alternateNames_succeeds [OF assms(1,2)] obtain tpl1 where
    b: "alternateNames env (AlternateNames request) tpl0 = Inr tpl1"
    by blast
  from a b have "buildTemplate env request issuer serial h =
      Ok (statusProviders (Providers request) tpl1)"
    by (simp add: buildTemplate_def)
  with buildTemplate_grouped [OF this] show ?thesis by blast
qed

lemma signCertificate_Ok:
  assumes "signCertificate env issuer tpl pub priv = Ok certBytes"
  shows "\<exists>parent signer.
    (case issuer of None \<Rightarrow> True | Some i \<Rightarrow> x509 env i = Ok parent \<and> pKey env i = Ok signer)
    \<and> createCertificate env tpl (case issuer of None \<Rightarrow> tpl | Some i \<Rightarrow> parent) pub
         (case issuer of None \<Rightarrow> priv | Some i \<Rightarrow> signer) = Inr certBytes"
  using assms
  by (auto simp: signCertificate_def split: option.splits result.splits sum.splits)

section \<open>The claims\<close>

text \<open>
  Claim C1, as amended. The returned record's \<open>CertificateAuthority\<close> flag is the test
  \<open>issuer == nil\<close> of line 269: true for every self-signed certificate, false for every
  certificate signed by an issuer. The request's \<open>IsCertificateAuthority\<close> is never read.
\<close>

theorem certificateAuthority_is_self_signed:
  assumes "GenerateCertificate env request issuer = Ok c"
  shows "CertificateAuthority c = (issuer = None)"
  using assms by (rule GenerateCertificate_Ok) simp

theorem certificateAuthority_is_self_signed_witness:
  "GenerateCertificate exampleEnv exampleRequest None = Ok exampleIssuer
   \<and> CertificateAuthority exampleIssuer"
proof -
  have h: "GenerateCertificate exampleEnv exampleRequest None = Ok exampleIssuer"
    by code_simp
  from certificateAuthority_is_self_signed [OF h] h show ?thesis by simp
qed

text \<open>
  Claim C1 as stated fails: a request that asks for a certificate authority and is signed
  by an issuer comes back with \<open>CertificateAuthority = False\<close>.
\<close>

theorem request_flag_ignored_counterexample:
  "IsCertificateAuthority exampleRequest
   \<and> GenerateCertificate exampleEnv exampleRequest (Some exampleIssuer) =
       Ok (exampleIssuer\<lparr>CertificateAuthority := False\<rparr>)
   \<and> CertificateAuthority (exampleIssuer\<lparr>CertificateAuthority := False\<rparr>) \<noteq>
       IsCertificateAuthority exampleRequest"
  by code_simp

text \<open>
  Claim C2 at its failing input. The request sets \<open>ServerAuth\<close> and \<open>ClientAuth\<close>, for which
  \<open>extendedUsage\<close> returns the two identifiers in declaration order; the template that is
  signed holds the empty list of line 282 instead, \<open>extendedUsage\<close> being called nowhere.
\<close>

theorem extKeyUsage_left_empty:
  "extendedUsage (Usage exampleRequest) = [ExtKeyUsageServerAuth, ExtKeyUsageClientAuth]
   \<and> buildTemplate exampleEnv exampleRequest None 42 (replicate 20 0) =
       Ok (template exampleRequest 42 (replicate 20 0))
   \<and> x509_ExtKeyUsage (template exampleRequest 42 (replicate 20 0)) = []"
  by code_simp

text \<open>
  Claim C3, as amended. \<open>x509\<close> and \<open>pKey\<close> never return an error: when the hex decoding
  or the DER decoding of the stored data fails they panic with the decoder's error.
\<close>

theorem accessors_panic_on_corrupt_record:
  "(\<forall>e. x509 env c \<noteq> Err e \<and> pKey env c \<noteq> Err e)
   \<and> (\<forall>e. DecodeString (CertificateData c) = Inl e \<longrightarrow> x509 env c = Panic (HexDecodeError e))
   \<and> (\<forall>data msg. DecodeString (CertificateData c) = Inr data \<and> parseCertificate env data = Inl msg
        \<longrightarrow> x509 env c = Panic (ParseCertificateError msg))
   \<and> (\<forall>e. DecodeString (KeyData c) = Inl e \<longrightarrow> pKey env c = Panic (HexDecodeError e))
   \<and> (\<forall>data msg. DecodeString (KeyData c) = Inr data \<and> parsePKCS8PrivateKey env data = Inl msg
        \<longrightarrow> pKey env c = Panic (ParsePKCS8PrivateKeyError msg))"
  by (auto simp: x509_def pKey_def certificateDataBytes_def keyDataBytes_def split: sum.splits)

theorem accessors_panic_on_corrupt_record_witness:
  "DecodeString (KeyData (exampleIssuer\<lparr>KeyData := ''300''\<rparr>)) = Inl ErrLength
   \<and> pKey exampleEnv (exampleIssuer\<lparr>KeyData := ''300''\<rparr>) = Panic (HexDecodeError ErrLength)
   \<and> DecodeString (KeyData (exampleIssuer\<lparr>KeyData := ''30''\<rparr>)) = Inr [0x30]
   \<and> parsePKCS8PrivateKey exampleEnv [0x30] = Inl ''asn1: syntax error''
   \<and> pKey exampleEnv (exampleIssuer\<lparr>KeyData := ''30''\<rparr>) =
       Panic (ParsePKCS8PrivateKeyError ''asn1: syntax error'')"
proof -
  have a: "DecodeString (KeyData (exampleIssuer\<lparr>KeyData := ''300''\<rparr>)) = Inl ErrLength"
    by code_simp
  have b: "DecodeString (KeyData (exampleIssuer\<lparr>KeyData := ''30''\<rparr>)) = Inr [0x30]"
    by code_simp
  have c: "parsePKCS8PrivateKey exampleEnv [0x30] = Inl ''asn1: syntax error''"
    by code_simp
  from accessors_panic_on_corrupt_record [of exampleEnv "exampleIssuer\<lparr>KeyData := ''300''\<rparr>"]
    accessors_panic_on_corrupt_record [of exampleEnv "exampleIssuer\<lparr>KeyData := ''30''\<rparr>"]
    a b c
  show ?thesis by blast
qed

text \<open>
  Claim C3 as stated fails: with the stored certificate data cut by one byte (two hex
  digits) the DER decoding fails, with one more character cut the hex decoding fails, and
  either way \<open>x509\<close> panics where the claim has it return an error.
\<close>

theorem truncated_certificateData_panics_counterexample:
  "CertificateData exampleIssuer = ''300302012a''
   \<and> x509 exampleEnv exampleIssuer = Ok exampleParsed
   \<and> x509 exampleEnv (exampleIssuer\<lparr>CertificateData := ''30030201''\<rparr>) =
       Panic (ParseCertificateError ''x509: malformed certificate'')
   \<and> x509 exampleEnv (exampleIssuer\<lparr>CertificateData := ''3003020''\<rparr>) =
       Panic (HexDecodeError ErrLength)"
  by code_simp

text \<open>
  Claim C4. Whatever the request and the issuer, the template that reaches signing has
  \<open>BasicConstraintsValid\<close> set and \<open>IsCA\<close> unset; the bytes stored in the returned record
  are the signature over such a template; and yet the record of a self-signed
  certificate is marked \<open>CertificateAuthority\<close>.
\<close>

theorem template_never_asserts_CA:
  "(\<forall>serial h tpl. buildTemplate env request issuer serial h = Ok tpl \<longrightarrow>
      x509_BasicConstraintsValid tpl \<and> \<not> x509_IsCA tpl)
   \<and> (\<forall>c. GenerateCertificate env request issuer = Ok c \<longrightarrow>
        (\<exists>priv serial publicKeyBytes tpl certBytes.
           generateKey env = Inr priv
           \<and> randomSerialNumber env = Inr serial
           \<and> marshalPKIXPublicKey env (public env priv) = Inr publicKeyBytes
           \<and> buildTemplate env request issuer serial (sha1Sum env publicKeyBytes) = Ok tpl
           \<and> signCertificate env issuer tpl (public env priv) priv = Ok certBytes
           \<and> CertificateData c = EncodeToString certBytes
           \<and> x509_BasicConstraintsValid tpl \<and> \<not> x509_IsCA tpl))
   \<and> (\<forall>c. GenerateCertificate env request None = Ok c \<longrightarrow> CertificateAuthority c)"
proof (intro conjI allI impI)
  fix serial h tpl
  assume "buildTemplate env request issuer serial h = Ok tpl"
  from buildTemplate_flags [OF this]
  show "x509_BasicConstraintsValid tpl" and "\<not> x509_IsCA tpl" by simp_all
next
  fix c
  assume "GenerateCertificate env request issuer = Ok c"
  then obtain priv serial pKeyBytes publicKeyBytes tpl certBytes where
    k: "generateKey env = Inr priv" and
    s: "randomSerialNumber env = Inr serial" and
    m: "marshalPKIXPublicKey env (public env priv) = Inr publicKeyBytes" and
    b: "buildTemplate env request issuer serial (sha1Sum env publicKeyBytes) = Ok tpl" and
    g: "signCertificate env issuer tpl (public env priv) priv = Ok certBytes" and
    c: "c = \<lparr>Serial = bigString serial, CertificateSubject = Subject request,
          CertificateAuthority = (issuer = None),
          CertificateData = EncodeToString certBytes,
          KeyData = EncodeToString pKeyBytes\<rparr>"
    by (rule GenerateCertificate_Ok)
  from c have "CertificateData c = EncodeToString certBytes" by simp
  with k s m b g buildTemplate_flags [OF b]
  show "\<exists>priv serial publicKeyBytes tpl certBytes.
           generateKey env = Inr priv
           \<and> randomSerialNumber env = Inr serial
           \<and> marshalPKIXPublicKey env (public env priv) = Inr publicKeyBytes
           \<and> buildTemplate env request issuer serial (sha1Sum env publicKeyBytes) = Ok tpl
           \<and> signCertificate env issuer tpl (public env priv) priv = Ok certBytes
           \<and> CertificateData c = EncodeToString certBytes
           \<and> x509_BasicConstraintsValid tpl \<and> \<not> x509_IsCA tpl"
    by blast
next
  fix c
  assume "GenerateCertificate env request None = Ok c"
  then show "CertificateAuthority c"
    by (rule GenerateCertificate_Ok) simp
qed

theorem template_never_asserts_CA_witness:
  "GenerateCertificate exampleEnv exampleRequest None = Ok exampleIssuer
   \<and> CertificateAuthority exampleIssuer
   \<and> buildTemplate exampleEnv exampleRequest None 42 (replicate 20 0) =
       Ok (template exampleRequest 42 (replicate 20 0))
   \<and> x509_BasicConstraintsValid (template exampleRequest 42 (replicate 20 0))
   \<and> \<not> x509_IsCA (template exampleRequest 42 (replicate 20 0))"
proof -
  have g: "GenerateCertificate exampleEnv exampleRequest None = Ok exampleIssuer"
    by code_simp
  have b: "buildTemplate exampleEnv exampleRequest None 42 (replicate 20 0) =
       Ok (template exampleRequest 42 (replicate 20 0))"
    by code_simp
  from template_never_asserts_CA [of exampleEnv exampleRequest None] g b
  show ?thesis by blast
qed

text \<open>
  Claim C5, as amended. \<open>randomSerialNumber\<close> asks \<open>rand.Int\<close> for a value below
  \<open>1 << 128\<close>; given that \<open>rand.Int\<close> keeps its contract (a value from 0 up to, not
  including, a positive limit), the serial lies in that range and the record stores its
  decimal digits, so the stored serial is a natural number below \<open>2 ^ 128\<close>. Zero is not
  excluded.
\<close>

theorem serial_below_limit:
  assumes "\<forall>limit r. 0 < limit \<and> randInt env limit = Inr r \<longrightarrow> 0 \<le> r \<and> r < limit"
  shows "randomSerialNumber env = randInt env (2 ^ 128)
    \<and> (\<forall>r. randomSerialNumber env = Inr r \<longrightarrow> 0 \<le> r \<and> r < 2 ^ 128)
    \<and> (\<forall>c. GenerateCertificate env request issuer = Ok c \<longrightarrow>
         (\<exists>serial. randomSerialNumber env = Inr serial
            \<and> Serial c = bigString serial
            \<and> int (decimalValue (Serial c)) = serial
            \<and> decimalValue (Serial c) < 2 ^ 128))"
proof (intro conjI allI impI)
  show draw: "randomSerialNumber env = randInt env (2 ^ 128)"
    by (simp add: randomSerialNumber_def)
  have range: "0 \<le> r \<and> r < 2 ^ 128" if "randomSerialNumber env = Inr r" for r
  proof -
    from that draw have "randInt env (2 ^ 128) = Inr r" by simp
    moreover have "(0::int) < 2 ^ 128" by simp
    ultimately show ?thesis using assms by blast
  qed
  fix r
  assume "randomSerialNumber env = Inr r"
  from range [OF this] show "0 \<le> r" and "r < 2 ^ 128" by simp_all
next
  fix c
  assume "GenerateCertificate env request issuer = Ok c"
  then obtain serial where
    s: "randomSerialNumber env = Inr serial" and c: "Serial c = bigString serial"
    by (rule GenerateCertificate_Ok) simp
  from s have "randInt env (2 ^ 128) = Inr serial"
    by (simp add: randomSerialNumber_def)
  moreover have "(0::int) < 2 ^ 128" by simp
  ultimately have r: "0 \<le> serial \<and> serial < 2 ^ 128" using assms by blast
  then have v: "int (decimalValue (Serial c)) = serial"
    by (simp add: c decimalValue_bigString)
  with r have "int (decimalValue (Serial c)) < 2 ^ 128" by simp
  then have "decimalValue (Serial c) < 2 ^ 128"
    by (metis of_nat_less_iff of_nat_numeral of_nat_power)
  with s c v
  show "\<exists>serial. randomSerialNumber env = Inr serial
            \<and> Serial c = bigString serial
            \<and> int (decimalValue (Serial c)) = serial
            \<and> decimalValue (Serial c) < 2 ^ 128"
    by blast
qed

theorem serial_below_limit_witness:
  "randomSerialNumber exampleEnv = Inr 42
   \<and> GenerateCertificate exampleEnv exampleRequest None = Ok exampleIssuer
   \<and> Serial exampleIssuer = bigString 42
   \<and> decimalValue (Serial exampleIssuer) < 2 ^ 128"
proof -
  have contract:
    "\<forall>limit r. 0 < limit \<and> randInt exampleEnv limit = Inr r \<longrightarrow> 0 \<le> r \<and> r < limit"
    by (auto simp: exampleEnv_def)
  have s: "randomSerialNumber exampleEnv = Inr 42"
    by (simp add: randomSerialNumber_def exampleEnv_def)
  have g: "GenerateCertificate exampleEnv exampleRequest None = Ok exampleIssuer"
    by code_simp
  from serial_below_limit [OF contract, of exampleRequest None] s g
  show ?thesis by auto
qed

text \<open>
  Claim C5 as stated fails: when \<open>rand.Int\<close> draws 0, which lies in its range, the record
  stores the serial \<open>0\<close>, which is not positive.
\<close>

theorem zero_serial_counterexample:
  "randomSerialNumber (exampleEnv\<lparr>randInt := \<lambda>limit. Inr 0\<rparr>) = Inr 0
   \<and> GenerateCertificate (exampleEnv\<lparr>randInt := \<lambda>limit. Inr 0\<rparr>) exampleRequest None =
       Ok (exampleIssuer\<lparr>Serial := ''0''\<rparr>)
   \<and> decimalValue (Serial (exampleIssuer\<lparr>Serial := ''0''\<rparr>)) = 0"
  by code_simp




text \<open>
  Claim C7. An alternate name whose type is none of \<open>dns\<close>, \<open>email\<close>, \<open>ip\<close>, \<open>uri\<close> changes
  nothing: wherever it stands in the request, the template and the outcome of issuance
  are those of the request without it, and on its own it leaves the template as it was
  without an error.
\<close>

theorem unknown_type_is_skipped:
  assumes "Type name \<noteq> AlternateNameTypeDNS" and "Type name \<noteq> AlternateNameTypeEmail"
    and "Type name \<noteq> AlternateNameTypeIP" and "Type name \<noteq> AlternateNameTypeURI"
  shows "GenerateCertificate env (request\<lparr>AlternateNames := xs @ name # ys\<rparr>) issuer =
      GenerateCertificate env (request\<lparr>AlternateNames := xs @ ys\<rparr>) issuer
    \<and> buildTemplate env (request\<lparr>AlternateNames := xs @ name # ys\<rparr>) issuer serial h =
      buildTemplate env (request\<lparr>AlternateNames := xs @ ys\<rparr>) issuer serial h
    \<and> alternateNames env [name] tpl = Inr tpl"
proof -
  have t: "template (request\<lparr>AlternateNames := a\<rparr>) s k = template request s k" for a s k
    by (simp add: template_def)
  have b: "buildTemplate env (request\<lparr>AlternateNames := xs @ name # ys\<rparr>) issuer s k =
      buildTemplate env (request\<lparr>AlternateNames := xs @ ys\<rparr>) issuer s k" for s k
    by (simp add: buildTemplate_def t alternateNames_skip [OF assms] split: result.split sum.split)
  have "GenerateCertificate env (request\<lparr>AlternateNames := xs @ name # ys\<rparr>) issuer =
      GenerateCertificate env (request\<lparr>AlternateNames := xs @ ys\<rparr>) issuer"
    by (simp add: GenerateCertificate_def Let_def b split: result.split sum.split)
  moreover from assms have "alternateNames env [name] tpl = Inr tpl" by simp
  ultimately show ?thesis using b by simp
qed

theorem unknown_type_is_skipped_witness:
  "GenerateCertificate exampleEnv
     (exampleRequest\<lparr>AlternateNames := [] @ \<lparr>Type = ''carrier-pigeon'', Value = ''x''\<rparr> # []\<rparr>)
     None = Ok exampleIssuer"
proof -
  let ?name = "\<lparr>Type = ''carrier-pigeon'', Value = ''x''\<rparr>"
  have a: "Type ?name \<noteq> AlternateNameTypeDNS" "Type ?name \<noteq> AlternateNameTypeEmail"
    "Type ?name \<noteq> AlternateNameTypeIP" "Type ?name \<noteq> AlternateNameTypeURI"
    by (simp_all add: typeNames)
  have g: "GenerateCertificate exampleEnv (exampleRequest\<lparr>AlternateNames := [] @ []\<rparr>) None =
      Ok exampleIssuer"
    by code_simp
  from unknown_type_is_skipped [OF a, where env = exampleEnv and request = exampleRequest
      and xs = "[]" and ys = "[]" and issuer = None] g
  show ?thesis by simp
qed

text \<open>
  Claim C8. Let every \<open>ip\<close> and \<open>uri\<close> alternate name of the request parse. Then the
  template is built whenever the issuer decodes, with its four lists grouped by type in
  the request's order. Every certificate that issuance returns is the encoding of what
  \<open>x509.CreateCertificate\<close> made of the template of that very run (its key, serial and
  key identifier), and that template's lists are so grouped. And issuance does return
  the certificate: once the key, the serial and the two encodings are there and the
  issuer, if any, decodes, a successful \<open>x509.CreateCertificate\<close> on that template makes
  \<open>GenerateCertificate\<close> return the record holding its bytes.
\<close>

theorem alternate_names_grouped_by_type:
  assumes "\<forall>n\<in>set (AlternateNames request).
      Type n = AlternateNameTypeIP \<longrightarrow> parseIP env (Value n) \<noteq> None"
    and "\<forall>n\<in>set (AlternateNames request).
      Type n = AlternateNameTypeURI \<longrightarrow> (\<exists>u. urlParse env (Value n) = Inr u)"
  shows "(issuerDecodes env issuer \<longrightarrow>
       (\<exists>tpl. buildTemplate env request issuer serial h = Ok tpl
          \<and> namesGrouped env (AlternateNames request) tpl))
    \<and> (\<forall>c. GenerateCertificate env request issuer = Ok c \<longrightarrow>
         (\<exists>priv serial publicKeyBytes tpl parent signer certBytes.
            generateKey env = Inr priv
            \<and> randomSerialNumber env = Inr serial
            \<and> marshalPKIXPublicKey env (public env priv) = Inr publicKeyBytes
            \<and> buildTemplate env request issuer serial (sha1Sum env publicKeyBytes) = Ok tpl
            \<and> (case issuer of None \<Rightarrow> True
                | Some i \<Rightarrow> x509 env i = Ok parent \<and> pKey env i = Ok signer)
            \<and> createCertificate env tpl (case issuer of None \<Rightarrow> tpl | Some i \<Rightarrow> parent)
                 (public env priv) (case issuer of None \<Rightarrow> priv | Some i \<Rightarrow> signer) =
                Inr certBytes
            \<and> CertificateData c = EncodeToString certBytes
            \<and> namesGrouped env (AlternateNames request) tpl))
    \<and> (\<forall>priv serial pKeyBytes publicKeyBytes parent signer certBytes.
          generateKey env = Inr priv
          \<and> randomSerialNumber env = Inr serial
          \<and> marshalPKCS8PrivateKey env priv = Inr pKeyBytes
          \<and> marshalPKIXPublicKey env (public env priv) = Inr publicKeyBytes
          \<and> (case issuer of None \<Rightarrow> True
              | Some i \<Rightarrow> x509 env i = Ok parent \<and> pKey env i = Ok signer)
          \<longrightarrow>
          (\<exists>tpl. buildTemplate env request issuer serial (sha1Sum env publicKeyBytes) = Ok tpl
             \<and> namesGrouped env (AlternateNames request) tpl
             \<and> (createCertificate env tpl (case issuer of None \<Rightarrow> tpl | Some i \<Rightarrow> parent)
                   (public env priv) (case issuer of None \<Rightarrow> priv | Some i \<Rightarrow> signer) =
                  Inr certBytes \<longrightarrow>
                 GenerateCertificate env request issuer =
                   Ok \<lparr>Serial = bigString serial, CertificateSubject = Subject request,
                       CertificateAuthority = (issuer = None),
                       CertificateData = EncodeToString certBytes,
                       KeyData = EncodeToString pKeyBytes\<rparr>)))"
proof (intro conjI allI impI)
  assume "issuerDecodes env issuer"
  from buildTemplate_succeeds [OF assms this]
  show "\<exists>tpl. buildTemplate env request issuer serial h = Ok tpl
          \<and> namesGrouped env (AlternateNames request) tpl" .
next
  fix c
  assume "GenerateCertificate env request issuer = Ok c"
  then obtain priv serial' pKeyBytes publicKeyBytes tpl certBytes where
    k: "generateKey env = Inr priv" and
    s: "randomSerialNumber env = Inr serial'" and
    m: "marshalPKIXPublicKey env (public env priv) = Inr publicKeyBytes" and
    b: "buildTemplate env request issuer serial' (sha1Sum env publicKeyBytes) = Ok tpl" and
    g: "signCertificate env issuer tpl (public env priv) priv = Ok certBytes" and
    c: "c = \<lparr>Serial = bigString serial', CertificateSubject = Subject request,
          CertificateAuthority = (issuer = None),
          CertificateData = EncodeToString certBytes,
          KeyData = EncodeToString pKeyBytes\<rparr>"
    by (rule GenerateCertificate_Ok)
  from signCertificate_Ok [OF g] obtain parent signer where
    p: "case issuer of None \<Rightarrow> True | Some i \<Rightarrow> x509 env i = Ok parent \<and> pKey env i = Ok signer"
    and q: "createCertificate env tpl (case issuer of None \<Rightarrow> tpl | Some i \<Rightarrow> parent)
        (public env priv) (case issuer of None \<Rightarrow> priv | Some i \<Rightarrow> signer) = Inr certBytes"
    by blast
  from c have d: "CertificateData c = EncodeToString certBytes" by simp
  from k s m b p q d buildTemplate_grouped [OF b]
  show "\<exists>priv serial publicKeyBytes tpl parent signer certBytes.
            generateKey env = Inr priv
            \<and> randomSerialNumber env = Inr serial
            \<and> marshalPKIXPublicKey env (public env priv) = Inr publicKeyBytes
            \<and> buildTemplate env request issuer serial (sha1Sum env publicKeyBytes) = Ok tpl
            \<and> (case issuer of None \<Rightarrow> True
                | Some i \<Rightarrow> x509 env i = Ok parent \<and> pKey env i = Ok signer)
            \<and> createCertificate env tpl (case issuer of None \<Rightarrow> tpl | Some i \<Rightarrow> parent)
                 (public env priv) (case issuer of None \<Rightarrow> priv | Some i \<Rightarrow> signer) =
                Inr certBytes
            \<and> CertificateData c = EncodeToString certBytes
            \<and> namesGrouped env (AlternateNames request) tpl"
    by blast
next
  fix priv serial' pKeyBytes publicKeyBytes parent signer certBytes
  assume pre: "generateKey env = Inr priv
          \<and> randomSerialNumber env = Inr serial'
          \<and> marshalPKCS8PrivateKey env priv = Inr pKeyBytes
          \<and> marshalPKIXPublicKey env (public env priv) = Inr publicKeyBytes
          \<and> (case issuer of None \<Rightarrow> True
              | Some i \<Rightarrow> x509 env i = Ok parent \<and> pKey env i = Ok signer)"
  then have "issuerDecodes env issuer"
    by (simp add: issuerDecodes_def split: option.splits)
  from buildTemplate_succeeds [OF assms this] obtain tpl where
    b: "buildTemplate env request issuer serial' (sha1Sum env publicKeyBytes) = Ok tpl" and
    l: "namesGrouped env (AlternateNames request) tpl"
    by blast
  have "GenerateCertificate env request issuer =
      Ok \<lparr>Serial = bigString serial', CertificateSubject = Subject request,
          CertificateAuthority = (issuer = None),
          CertificateData = EncodeToString certBytes,
          KeyData = EncodeToString pKeyBytes\<rparr>"
    if q: "createCertificate env tpl (case issuer of None \<Rightarrow> tpl | Some i \<Rightarrow> parent)
        (public env priv) (case issuer of None \<Rightarrow> priv | Some i \<Rightarrow> signer) = Inr certBytes"
  proof -
    from pre q have "signCertificate env issuer tpl (public env priv) priv = Ok certBytes"
      by (simp add: signCertificate_def split: option.splits)
    with pre b show ?thesis
      by (simp add: GenerateCertificate_def)
  qed
  with b l
  show "\<exists>tpl. buildTemplate env request issuer serial' (sha1Sum env publicKeyBytes) = Ok tpl
             \<and> namesGrouped env (AlternateNames request) tpl
             \<and> (createCertificate env tpl (case issuer of None \<Rightarrow> tpl | Some i \<Rightarrow> parent)
                   (public env priv) (case issuer of None \<Rightarrow> priv | Some i \<Rightarrow> signer) =
                  Inr certBytes \<longrightarrow>
                 GenerateCertificate env request issuer =
                   Ok \<lparr>Serial = bigString serial', CertificateSubject = Subject request,
                       CertificateAuthority = (issuer = None),
                       CertificateData = EncodeToString certBytes,
                       KeyData = EncodeToString pKeyBytes\<rparr>)"
    by blast
qed

theorem alternate_names_grouped_by_type_witness:
  "GenerateCertificate exampleEnv (exampleRequest\<lparr>AlternateNames := exampleNames\<rparr>) None =
     Ok exampleIssuer
   \<and> CertificateData exampleIssuer = EncodeToString exampleDER
   \<and> (\<exists>tpl. buildTemplate exampleEnv (exampleRequest\<lparr>AlternateNames := exampleNames\<rparr>) None 42
          (replicate 20 0) = Ok tpl
        \<and> createCertificate exampleEnv tpl tpl (PublicKey 7) (PrivateKey 7) = Inr exampleDER
        \<and> x509_DNSNames tpl = [''a.example'', ''b.example'']
        \<and> x509_EmailAddresses tpl = [''ca@a.example'']
        \<and> x509_IPAddresses tpl = [[0, 0, 0, 0, 0, 0, 0, 0, 0, 0, 0xff, 0xff, 127, 0, 0, 1]]
        \<and> x509_URIs tpl = [URL ''https://a.example/x'', URL ''https://b.example/y''])"
proof -
  let ?request = "exampleRequest\<lparr>AlternateNames := exampleNames\<rparr>"
  have a: "\<forall>n\<in>set (AlternateNames ?request).
      Type n = AlternateNameTypeIP \<longrightarrow> parseIP exampleEnv (Value n) \<noteq> None"
    by (simp add: exampleNames_def exampleEnv_def typeNames)
  have b: "\<forall>n\<in>set (AlternateNames ?request).
      Type n = AlternateNameTypeURI \<longrightarrow> (\<exists>u. urlParse exampleEnv (Value n) = Inr u)"
    by (simp add: exampleNames_def exampleEnv_def typeNames)
  have pre: "generateKey exampleEnv = Inr (PrivateKey 7)
      \<and> randomSerialNumber exampleEnv = Inr 42
      \<and> marshalPKCS8PrivateKey exampleEnv (PrivateKey 7) = Inr [0x30, 7]
      \<and> marshalPKIXPublicKey exampleEnv (public exampleEnv (PrivateKey 7)) = Inr [0x30, 7]
      \<and> (case None :: Certificate option of None \<Rightarrow> True
          | Some i \<Rightarrow> x509 exampleEnv i = Ok exampleParsed \<and> pKey exampleEnv i = Ok (PrivateKey 7))"
    by (simp add: exampleEnv_def randomSerialNumber_def)
  have e: "sha1Sum exampleEnv [0x30, 7] = replicate 20 0"
    "public exampleEnv (PrivateKey 7) = PublicKey 7"
    "createCertificate exampleEnv t t (PublicKey 7) (PrivateKey 7) = Inr exampleDER" for t
    by (simp_all add: exampleEnv_def)
  have r: "\<lparr>Serial = bigString 42, CertificateSubject = Subject exampleRequest,
        CertificateAuthority = True,
        CertificateData = EncodeToString exampleDER,
        KeyData = EncodeToString [0x30, 7]\<rparr> = exampleIssuer"
    by code_simp
  have d: "CertificateData exampleIssuer = EncodeToString exampleDER"
    by code_simp
  have l: "namesGrouped exampleEnv (AlternateNames ?request) t =
      (x509_DNSNames t = [''a.example'', ''b.example'']
       \<and> x509_EmailAddresses t = [''ca@a.example'']
       \<and> x509_IPAddresses t = [[0, 0, 0, 0, 0, 0, 0, 0, 0, 0, 0xff, 0xff, 127, 0, 0, 1]]
       \<and> x509_URIs t = [URL ''https://a.example/x'', URL ''https://b.example/y''])" for t
    by (auto simp: namesGrouped_def ofType_def exampleNames_def exampleEnv_def typeNames)
  from alternate_names_grouped_by_type [OF a b, where issuer = None] pre
  obtain tpl where
    t: "buildTemplate exampleEnv ?request None 42 (sha1Sum exampleEnv [0x30, 7]) = Ok tpl"
      "namesGrouped exampleEnv (AlternateNames ?request) tpl"
      "createCertificate exampleEnv tpl tpl (public exampleEnv (PrivateKey 7)) (PrivateKey 7) =
         Inr exampleDER \<longrightarrow>
       GenerateCertificate exampleEnv ?request None =
         Ok \<lparr>Serial = bigString 42, CertificateSubject = Subject ?request,
             CertificateAuthority = (None = (None :: Certificate option)),
             CertificateData = EncodeToString exampleDER,
             KeyData = EncodeToString [0x30, 7]\<rparr>"
    by fastforce
  from t(3) have "GenerateCertificate exampleEnv ?request None = Ok exampleIssuer"
    by (simp add: e r)
  with t(1,2) d show ?thesis
    unfolding e l by blast
qed

text \<open>
  Claim C9. \<open>extendedUsage\<close> returns the identifiers of the declaration order whose flag is
  set, in that order: each set flag once, no other entry, and the empty list when all
  six extended flags are unset, whatever the basic flags.
\<close>

theorem extendedUsage_in_declaration_order:
  "extendedUsage u = filter (extendedFlag u) declarationOrder
   \<and> distinct (extendedUsage u)
   \<and> (\<forall>k. (k \<in> set (extendedUsage u)) = extendedFlag u k)
   \<and> length (extendedUsage u) = length (filter id [ServerAuth u, ClientAuth u, CodeSigning u,
        EmailProtection u, TimeStamping u, OCSPSigning u])
   \<and> extendedUsage (u\<lparr>ServerAuth := False, ClientAuth := False, CodeSigning := False,
        EmailProtection := False, TimeStamping := False, OCSPSigning := False\<rparr>) = []"
proof (intro conjI allI)
  show f: "extendedUsage u = filter (extendedFlag u) declarationOrder"
    by (simp add: extendedUsage_def declarationOrder_def)
  show "distinct (extendedUsage u)"
    by (simp add: f declarationOrder_def)
  show "(k \<in> set (extendedUsage u)) = extendedFlag u k" for k
    by (cases k) (simp_all add: f declarationOrder_def)
  show "length (extendedUsage u) = length (filter id [ServerAuth u, ClientAuth u, CodeSigning u,
        EmailProtection u, TimeStamping u, OCSPSigning u])"
    by (simp add: extendedUsage_def)
  show "extendedUsage (u\<lparr>ServerAuth := False, ClientAuth := False, CodeSigning := False,
        EmailProtection := False, TimeStamping := False, OCSPSigning := False\<rparr>) = []"
    by (simp add: extendedUsage_def)
qed

theorem extendedUsage_in_declaration_order_witness:
  "extendedUsage (noUsage\<lparr>OCSPSigning := True, ServerAuth := True\<rparr>) =
     [ExtKeyUsageServerAuth, ExtKeyUsageOCSPSigning]"
proof -
  have "filter (extendedFlag (noUsage\<lparr>OCSPSigning := True, ServerAuth := True\<rparr>)) declarationOrder =
      [ExtKeyUsageServerAuth, ExtKeyUsageOCSPSigning]"
    by (simp add: declarationOrder_def noUsage_def)
  with extendedUsage_in_declaration_order [of "noUsage\<lparr>OCSPSigning := True, ServerAuth := True\<rparr>"]
  show ?thesis by simp
qed

text \<open>
  Claim C10. \<open>nameFromPkix\<close> undoes \<open>pkix\<close> on every \<open>Name\<close>, and on any \<open>pkix.Name\<close> it
  takes the first value of each attribute, leaves the field empty where the attribute has
  no value, and copies the common name.
\<close>

theorem nameFromPkix_inverts_pkix:
  "nameFromPkix (pkix n) = n
   \<and> Organization (nameFromPkix p) = (case pkix_Organization p of [] \<Rightarrow> [] | v # vs \<Rightarrow> v)
   \<and> City (nameFromPkix p) = (case pkix_Locality p of [] \<Rightarrow> [] | v # vs \<Rightarrow> v)
   \<and> Province (nameFromPkix p) = (case pkix_Province p of [] \<Rightarrow> [] | v # vs \<Rightarrow> v)
   \<and> Country (nameFromPkix p) = (case pkix_Country p of [] \<Rightarrow> [] | v # vs \<Rightarrow> v)
   \<and> CommonName (nameFromPkix p) = pkix_CommonName p"
  by (simp add: nameFromPkix_def pkix_def Let_def split: list.split)

theorem nameFromPkix_inverts_pkix_witness:
  "nameFromPkix (pkix exampleName) = exampleName
   \<and> Organization (nameFromPkix (zeroName\<lparr>pkix_Organization := [''First'', ''Second'']\<rparr>)) =
       ''First''
   \<and> City (nameFromPkix (zeroName\<lparr>pkix_Organization := [''First'', ''Second'']\<rparr>)) = []"
  using nameFromPkix_inverts_pkix [of exampleName "zeroName\<lparr>pkix_Organization := [''First'', ''Second'']\<rparr>"]
  by (simp add: zeroName_def)

end
